theory Spec2Isabelle
  imports Main
begin

section \<open>The error boundary of the application shell\<close>

text \<open>
  A shallow embedding of \<^verbatim>\<open>src/components/common/ErrorBoundary/ErrorBoundary.tsx\<close>:
  the class \<^verbatim>\<open>ErrorBoundary\<close> with its state, its two capture hooks, its reset
  handler and its \<^verbatim>\<open>render\<close> method. State is passed explicitly, \<^verbatim>\<open>setState\<close> is the
  shallow merge of a partial state, calls that leave the component (the console, the
  \<^verbatim>\<open>onError\<close> prop) are recorded in a list, and reading a member of \<^verbatim>\<open>null\<close> is a fault value.
\<close>

subsection \<open>Values\<close>

text \<open>
  The build flag of \<^verbatim>\<open>import.meta.env\<close>: \<^verbatim>\<open>DEV\<close> and \<^verbatim>\<open>PROD\<close> are the two booleans the
  bundler derives from the one build mode, each the negation of the other
  (\<open>PROD\<close> is taken by HOL's product notation, so both carry the prefix \<open>env_\<close>).
\<close>

datatype build = Development | Production

definition env_DEV :: "build \<Rightarrow> bool" where
  "env_DEV env = (env = Development)"

definition env_PROD :: "build \<Rightarrow> bool" where
  "env_PROD env = (env = Production)"

text \<open>
  An \<^verbatim>\<open>Error\<close> object, with the two properties that \<^verbatim>\<open>Error.prototype.toString\<close> reads.
\<close>

record jsError =
  err_name :: string
  err_message :: string

definition toString :: "jsError \<Rightarrow> string" where
  "toString e =
     (if err_name e = [] then err_message e
      else if err_message e = [] then err_name e
      else err_name e @ '': '' @ err_message e)"

text \<open>
  A Number, by what the component can observe of it: whether it is falsy (\<^verbatim>\<open>0\<close>, \<^verbatim>\<open>-0\<close>
  and \<^verbatim>\<open>NaN\<close> are) and its string form. \<open>NumOther s\<close> is a number other than zero and
  \<^verbatim>\<open>NaN\<close> that prints as \<open>s\<close>.
\<close>

datatype jsNumber = NumZero | NumNaN | NumOther string

fun number_truthy :: "jsNumber \<Rightarrow> bool" where
  "number_truthy NumZero = False"
| "number_truthy NumNaN = False"
| "number_truthy (NumOther s) = True"

fun number_toString :: "jsNumber \<Rightarrow> string" where
  "number_toString NumZero = ''0''"
| "number_toString NumNaN = ''NaN''"
| "number_toString (NumOther s) = s"

text \<open>
  What a descendant throws, and so what React hands to the two hooks. The annotation
  \<^verbatim>\<open>error: Error\<close> is erased at run time and \<^verbatim>\<open>throw\<close> takes any value, so next to
  \<^verbatim>\<open>Error\<close> objects the primitive values are thrown values too, \<^verbatim>\<open>null\<close> and the other
  falsy ones among them.
\<close>

datatype jsValue =
    VUndefined
  | VNull
  | VBool bool
  | VNum jsNumber
  | VStr string
  | VError jsError

fun truthy_value :: "jsValue \<Rightarrow> bool" where
  "truthy_value VUndefined = False"
| "truthy_value VNull = False"
| "truthy_value (VBool b) = b"
| "truthy_value (VNum n) = number_truthy n"
| "truthy_value (VStr s) = (s \<noteq> [])"
| "truthy_value (VError e) = True"

text \<open>\<^verbatim>\<open>String(v)\<close>, which is \<^verbatim>\<open>v.toString()\<close> for every value that has members.\<close>

fun js_String :: "jsValue \<Rightarrow> string" where
  "js_String VUndefined = ''undefined''"
| "js_String VNull = ''null''"
| "js_String (VBool b) = (if b then ''true'' else ''false'')"
| "js_String (VNum n) = number_toString n"
| "js_String (VStr s) = s"
| "js_String (VError e) = toString e"

text \<open>
  A field that may hold a value, \<^verbatim>\<open>null\<close>, or be absent. React's \<^verbatim>\<open>ErrorInfo\<close> is the trace
  of the components above the one that threw, declared
  \<^verbatim>\<open>componentStack?: string | null\<close>.
\<close>

datatype 'a nullable = Undefined | Null | Defined 'a

record ErrorInfo =
  componentStack :: "string nullable"

text \<open>
  A \<^verbatim>\<open>ReactNode\<close>: what a prop or a \<^verbatim>\<open>render\<close> result can be. An element keeps its
  type, its props in source order and its children. \<open>AStyle k\<close> is the class name
  \<^verbatim>\<open>styles.k\<close> of the CSS module, \<open>AHandler\<close> a method of the boundary bound as an event
  handler.
\<close>

datatype handler = HandleReset

datatype attr = AStr string | AStyle string | AHandler handler

datatype node =
    NUndefined
  | NNull
  | NBool bool
  | NNum jsNumber
  | NStr string
  | NList "node list"
  | NElem string "(string \<times> attr) list" "node list"

text \<open>JavaScript truthiness, as the conditions \<^verbatim>\<open>if (x)\<close> and \<^verbatim>\<open>x && y\<close> test it.\<close>

fun truthy :: "node \<Rightarrow> bool" where
  "truthy NUndefined = False"
| "truthy NNull = False"
| "truthy (NBool b) = b"
| "truthy (NNum n) = number_truthy n"
| "truthy (NStr s) = (s \<noteq> [])"
| "truthy (NList xs) = True"
| "truthy (NElem t as cs) = True"

text \<open>
  The call \<^verbatim>\<open>v.toString()\<close>: reading a member of \<^verbatim>\<open>null\<close> or \<^verbatim>\<open>undefined\<close> throws a
  \<^verbatim>\<open>TypeError\<close>.
\<close>

datatype fault = TypeError

definition toString_call :: "jsValue \<Rightarrow> fault + string" where
  "toString_call v = (if v = VNull \<or> v = VUndefined then Inl TypeError else Inr (js_String v))"

text \<open>
  The left operand of \<^verbatim>\<open>v && x\<close> when it decides the result: a falsy value, which is a
  primitive and so a \<^verbatim>\<open>ReactNode\<close> as it stands. \<open>None\<close> for a truthy value.
\<close>

fun falsy_node :: "jsValue \<Rightarrow> node option" where
  "falsy_node VUndefined = Some NUndefined"
| "falsy_node VNull = Some NNull"
| "falsy_node (VBool b) = (if b then None else Some (NBool False))"
| "falsy_node (VNum n) = (if number_truthy n then None else Some (NNum n))"
| "falsy_node (VStr s) = (if s = [] then Some (NStr []) else None)"
| "falsy_node (VError e) = None"

subsection \<open>Props and state\<close>

text \<open>
  \<^verbatim>\<open>ErrorBoundaryProps\<close>. An omitted \<^verbatim>\<open>fallback\<close> reads as \<^verbatim>\<open>undefined\<close>. The callback
  \<^verbatim>\<open>onError\<close> returns nothing; the model keeps what it throws, if it throws. The
  \<^verbatim>\<open>error\<close> field is declared \<^verbatim>\<open>Error | null\<close> and holds whatever value is stored in it.
\<close>

record ErrorBoundaryProps =
  children :: node
  fallback :: node
  onError :: "(jsValue \<Rightarrow> ErrorInfo \<Rightarrow> jsValue option) option"

record ErrorBoundaryState =
  hasError :: bool
  error :: jsValue
  errorInfo :: "ErrorInfo option"

text \<open>A \<^verbatim>\<open>Partial<ErrorBoundaryState>\<close>: \<open>None\<close> is a key the object does not have.\<close>

record PartialState =
  set_hasError :: "bool option"
  set_error :: "jsValue option"
  set_errorInfo :: "ErrorInfo option option"

definition setState :: "ErrorBoundaryState \<Rightarrow> PartialState \<Rightarrow> ErrorBoundaryState" where
  "setState st u =
     \<lparr> hasError = (case set_hasError u of None \<Rightarrow> hasError st | Some b \<Rightarrow> b),
       error = (case set_error u of None \<Rightarrow> error st | Some e \<Rightarrow> e),
       errorInfo = (case set_errorInfo u of None \<Rightarrow> errorInfo st | Some i \<Rightarrow> i) \<rparr>"

subsection \<open>The methods of the class\<close>

definition constructor_state :: ErrorBoundaryState where
  "constructor_state = \<lparr> hasError = False, error = VNull, errorInfo = None \<rparr>"

definition getDerivedStateFromError :: "jsValue \<Rightarrow> PartialState" where
  "getDerivedStateFromError e =
     \<lparr> set_hasError = Some True, set_error = Some e, set_errorInfo = None \<rparr>"

text \<open>
  Calls that leave the component, in the order they are made. \<^verbatim>\<open>componentDidCatch\<close> logs
  to the console in development, queues its \<^verbatim>\<open>setState\<close>, then calls \<^verbatim>\<open>onError\<close> if the prop
  is there; what the callback throws leaves \<^verbatim>\<open>componentDidCatch\<close> as it is. The branch on
  \<^verbatim>\<open>import.meta.env.PROD\<close> that ends the method is empty in the source.
\<close>

datatype call =
    ConsoleError string jsValue ErrorInfo
  | OnErrorCall jsValue ErrorInfo

record didCatch =
  next_state :: ErrorBoundaryState
  calls :: "call list"
  raised :: "jsValue option"

definition componentDidCatch ::
  "build \<Rightarrow> ErrorBoundaryProps \<Rightarrow> ErrorBoundaryState \<Rightarrow> jsValue \<Rightarrow> ErrorInfo \<Rightarrow> didCatch" where
  "componentDidCatch env p st e info =
     (let logged = (if env_DEV env then [ConsoleError ''ErrorBoundary caught an error:'' e info] else []);
          st' = setState st \<lparr> set_hasError = None, set_error = Some e,
                               set_errorInfo = Some (Some info) \<rparr>
      in case onError p of
           None \<Rightarrow> \<lparr> next_state = st', calls = logged, raised = None \<rparr>
         | Some cb \<Rightarrow>
             \<lparr> next_state = st', calls = logged @ [OnErrorCall e info], raised = cb e info \<rparr>)"

definition handleReset :: "ErrorBoundaryState \<Rightarrow> ErrorBoundaryState" where
  "handleReset st =
     setState st \<lparr> set_hasError = Some False, set_error = Some VNull, set_errorInfo = Some None \<rparr>"

subsection \<open>The built-in recovery view\<close>

text \<open>
  The JSX of \<^verbatim>\<open>render\<close>, block by block in source order. Text is what JSX keeps of it:
  lines trimmed, blank lines dropped.
\<close>

definition svg_stroke :: "(string \<times> attr) list" where
  "svg_stroke = [(''fill'', AStr ''none''), (''stroke'', AStr ''currentColor''),
                 (''strokeWidth'', AStr ''2'')]"

definition forestDecoration :: node where
  "forestDecoration =
     NElem ''div'' [(''className'', AStyle ''forestDecoration''), (''aria-hidden'', AStr ''true'')]
      [NElem ''svg'' [(''viewBox'', AStr ''0 0 200 120''), (''className'', AStyle ''treeSvg'')]
        [NElem ''path'' [(''d'', AStr ''M100 10 L130 50 L115 50 L140 90 L60 90 L85 50 L70 50 Z''),
                         (''fill'', AStr ''currentColor''), (''opacity'', AStr ''0.3'')] [],
         NElem ''rect'' [(''x'', AStr ''95''), (''y'', AStr ''90''), (''width'', AStr ''10''),
                         (''height'', AStr ''20''), (''fill'', AStr ''currentColor''),
                         (''opacity'', AStr ''0.4'')] [],
         NElem ''path'' [(''d'', AStr ''M60 25 L80 55 L70 55 L90 85 L30 85 L50 55 L40 55 Z''),
                         (''fill'', AStr ''currentColor''), (''opacity'', AStr ''0.2'')] [],
         NElem ''rect'' [(''x'', AStr ''56''), (''y'', AStr ''85''), (''width'', AStr ''8''),
                         (''height'', AStr ''15''), (''fill'', AStr ''currentColor''),
                         (''opacity'', AStr ''0.3'')] [],
         NElem ''path'' [(''d'', AStr ''M150 30 L170 60 L160 60 L175 85 L125 85 L140 60 L130 60 Z''),
                         (''fill'', AStr ''currentColor''), (''opacity'', AStr ''0.25'')] [],
         NElem ''rect'' [(''x'', AStr ''147''), (''y'', AStr ''85''), (''width'', AStr ''7''),
                         (''height'', AStr ''12''), (''fill'', AStr ''currentColor''),
                         (''opacity'', AStr ''0.35'')] []]]"

definition errorIcon :: node where
  "errorIcon =
     NElem ''div'' [(''className'', AStyle ''errorIcon''), (''aria-hidden'', AStr ''true'')]
      [NElem ''svg'' ([(''viewBox'', AStr ''0 0 24 24''), (''width'', AStr ''64''),
                       (''height'', AStr ''64'')] @ svg_stroke)
        [NElem ''circle'' [(''cx'', AStr ''12''), (''cy'', AStr ''12''), (''r'', AStr ''10'')] [],
         NElem ''line'' [(''x1'', AStr ''12''), (''y1'', AStr ''8''), (''x2'', AStr ''12''),
                         (''y2'', AStr ''12'')] [],
         NElem ''line'' [(''x1'', AStr ''12''), (''y1'', AStr ''16''), (''x2'', AStr ''12.01''),
                         (''y2'', AStr ''16'')] []]]"

definition errorTitle :: node where
  "errorTitle =
     NElem ''h1'' [(''id'', AStr ''error-title''), (''className'', AStyle ''title'')]
      [NStr ''Something Went Wrong'']"

definition errorMessage :: node where
  "errorMessage =
     NElem ''p'' [(''className'', AStyle ''description'')]
      [NStr ''We encountered an unexpected error while loading this page.'',
       NElem ''br'' [] [],
       NStr ''Don't worry, our team has been notified and we're working to fix it.'']"

definition button_svg :: "node list \<Rightarrow> node" where
  "button_svg paths =
     NElem ''svg'' ([(''viewBox'', AStr ''0 0 24 24''), (''width'', AStr ''20''),
                     (''height'', AStr ''20'')] @ svg_stroke) paths"

definition navigation :: node where
  "navigation =
     NElem ''nav'' [(''className'', AStyle ''navigation''),
                    (''aria-label'', AStr ''Error page navigation'')]
      [NElem ''button'' [(''onClick'', AHandler HandleReset), (''className'', AStyle ''primaryButton'')]
        [NElem ''span'' [] [NStr ''Try Again''],
         button_svg
          [NElem ''path'' [(''d'', AStr ''M1 4v6h6M23 20v-6h-6'')] [],
           NElem ''path'' [(''d'', AStr
             ''M20.49 9A9 9 0 0 0 5.64 5.64L1 10m22 4l-4.64 4.36A9 9 0 0 1 3.51 15'')] []]],
       NElem ''Link'' [(''to'', AStr ''/''), (''className'', AStyle ''secondaryButton'')]
        [NElem ''span'' [] [NStr ''Return Home''],
         button_svg
          [NElem ''path'' [(''d'', AStr
             ''M3 12l2-2m0 0l7-7 7 7M5 10v10a1 1 0 001 1h3m10-11l2 2m-2-2v10a1 1 0 01-1 1h-3m-6 0a1 1 0 001-1v-4a1 1 0 011-1h2a1 1 0 011 1v4a1 1 0 001 1m-6 0h6'')]
            []]]]"

definition helpfulLinks :: node where
  "helpfulLinks =
     NElem ''div'' [(''className'', AStyle ''helpfulLinks'')]
      [NElem ''p'' [(''className'', AStyle ''helpfulText'')] [NStr ''Or try visiting:''],
       NElem ''ul'' [(''className'', AStyle ''linkList'')]
        [NElem ''li'' [] [NElem ''Link'' [(''to'', AStr ''/people-for-the-planet'')]
                           [NStr ''People for the Planet'']],
         NElem ''li'' [] [NElem ''Link'' [(''to'', AStr ''/business-for-the-planet'')]
                           [NStr ''Business for the Planet'']],
         NElem ''li'' [] [NElem ''Link'' [(''to'', AStr ''/about'')] [NStr ''About Us'']]]]"

definition support :: node where
  "support =
     NElem ''p'' [(''className'', AStyle ''support'')]
      [NStr ''Need help? Contact us at'', NStr '' '',
       NElem ''a'' [(''href'', AStr ''mailto:connect@sacredgroves.earth'')]
        [NStr ''connect@sacredgroves.earth'']]"

text \<open>
  \<^verbatim>\<open>this.state.errorInfo?.componentStack\<close>: optional chaining gives \<^verbatim>\<open>undefined\<close> on a null
  \<^verbatim>\<open>errorInfo\<close> instead of throwing; otherwise the field as it is.
\<close>

definition componentStack_of :: "ErrorInfo option \<Rightarrow> node" where
  "componentStack_of i =
     (case i of
        None \<Rightarrow> NUndefined
      | Some info \<Rightarrow>
          (case componentStack info of
             Undefined \<Rightarrow> NUndefined
           | Null \<Rightarrow> NNull
           | Defined s \<Rightarrow> NStr s))"

text \<open>
  The \<^verbatim>\<open><details>\<close> element. It calls \<^verbatim>\<open>this.state.error.toString()\<close>, so building it can
  fault.
\<close>

definition errorDetails :: "ErrorBoundaryState \<Rightarrow> fault + node" where
  "errorDetails st =
     (case toString_call (error st) of
        Inl f \<Rightarrow> Inl f
      | Inr text \<Rightarrow>
          Inr (NElem ''details'' [(''className'', AStyle ''errorDetails'')]
                [NElem ''summary'' [(''className'', AStyle ''errorSummary'')]
                  [NStr ''Error Details (Development Only)''],
                 NElem ''div'' [(''className'', AStyle ''errorContent'')]
                  [NElem ''pre'' [(''className'', AStyle ''errorStack'')]
                    [NStr text, componentStack_of (errorInfo st)]]]))"

text \<open>
  \<^verbatim>\<open>import.meta.env.DEV && this.state.error && (<details>...)\<close>: the first falsy operand is
  the value. The slot holds \<^verbatim>\<open>false\<close> outside development, and in development the stored
  error itself when that is falsy (\<^verbatim>\<open>null\<close> before any capture).
\<close>

definition detailsSlot :: "build \<Rightarrow> ErrorBoundaryState \<Rightarrow> fault + node" where
  "detailsSlot env st =
     (if \<not> env_DEV env then Inr (NBool False)
      else (case falsy_node (error st) of
              Some n \<Rightarrow> Inr n
            | None \<Rightarrow> errorDetails st))"

definition defaultFallback :: "node \<Rightarrow> node" where
  "defaultFallback slot =
     NElem ''section'' [(''className'', AStyle ''container''), (''aria-labelledby'', AStr ''error-title'')]
      [NElem ''div'' [(''className'', AStyle ''content'')]
        [forestDecoration, errorIcon, errorTitle, errorMessage, navigation, helpfulLinks,
         support, slot]]"

definition render :: "build \<Rightarrow> ErrorBoundaryProps \<Rightarrow> ErrorBoundaryState \<Rightarrow> fault + node" where
  "render env p st =
     (if hasError st then
        (if truthy (fallback p) then Inr (fallback p)
         else (case detailsSlot env st of
                 Inl f \<Rightarrow> Inl f
               | Inr slot \<Rightarrow> Inr (defaultFallback slot)))
      else Inr (children p))"

text \<open>An event handler found in the view runs the method it names.\<close>

fun invoke :: "handler \<Rightarrow> ErrorBoundaryState \<Rightarrow> ErrorBoundaryState" where
  "invoke HandleReset st = handleReset st"

subsection \<open>React's contract with an error boundary\<close>

text \<open>
  The class is called by React, in this order: when a descendant throws \<open>e\<close> while it
  renders, React merges \<^verbatim>\<open>getDerivedStateFromError(e)\<close> into the state of the nearest
  boundary and renders it again; once that output is committed it calls
  \<^verbatim>\<open>componentDidCatch(e, info)\<close>, whose \<^verbatim>\<open>setState\<close> causes one more render. A click on
  a button runs its \<^verbatim>\<open>onClick\<close> handler. \<open>derive\<close> is the state of the first fallback
  render, \<open>capture\<close> the whole capture.
\<close>

definition derive :: "ErrorBoundaryState \<Rightarrow> jsValue \<Rightarrow> ErrorBoundaryState" where
  "derive st e = setState st (getDerivedStateFromError e)"

definition capture ::
  "build \<Rightarrow> ErrorBoundaryProps \<Rightarrow> ErrorBoundaryState \<Rightarrow> jsValue \<Rightarrow> ErrorInfo \<Rightarrow> didCatch" where
  "capture env p st e info = componentDidCatch env p (derive st e) e info"

datatype event = Throws jsValue ErrorInfo | Click handler

fun step :: "build \<Rightarrow> ErrorBoundaryProps \<Rightarrow> ErrorBoundaryState \<Rightarrow> event \<Rightarrow> ErrorBoundaryState" where
  "step env p st (Throws e info) = next_state (capture env p st e info)"
| "step env p st (Click h) = invoke h st"

definition run ::
  "build \<Rightarrow> ErrorBoundaryProps \<Rightarrow> ErrorBoundaryState \<Rightarrow> event list \<Rightarrow> ErrorBoundaryState" where
  "run env p st evs = foldl (step env p) st evs"

fun is_throw :: "event \<Rightarrow> bool" where
  "is_throw (Throws e info) = True"
| "is_throw (Click h) = False"

subsection \<open>Reading a view\<close>

text \<open>
  The nodes of a view in document order, and the text React puts on the page for it:
  strings and numbers are text, booleans, \<^verbatim>\<open>null\<close> and \<^verbatim>\<open>undefined\<close> render nothing.
\<close>

fun descendants :: "node \<Rightarrow> node list" where
  "descendants (NElem t as cs) = NElem t as cs # concat (map descendants cs)"
| "descendants (NList xs) = NList xs # concat (map descendants xs)"
| "descendants n = [n]"

fun text_of :: "node \<Rightarrow> string" where
  "text_of (NStr s) = s"
| "text_of (NNum n) = number_toString n"
| "text_of (NElem t as cs) = concat (map text_of cs)"
| "text_of (NList xs) = concat (map text_of xs)"
| "text_of n = []"

fun tag_of :: "node \<Rightarrow> string option" where
  "tag_of (NElem t as cs) = Some t"
| "tag_of n = None"

fun attrs_of :: "node \<Rightarrow> (string \<times> attr) list" where
  "attrs_of (NElem t as cs) = as"
| "attrs_of n = []"

definition elements :: "string \<Rightarrow> node \<Rightarrow> node list" where
  "elements t v = filter (\<lambda>n. tag_of n = Some t) (descendants v)"







definition panels :: "node \<Rightarrow> node list" where
  "panels v = elements ''details'' v"

definition panel_text :: "node \<Rightarrow> string list" where
  "panel_text v = map text_of (elements ''pre'' v)"


subsection \<open>What leaves the component\<close>

text \<open>
  The calls made while a list of events is handled, in order; \<open>reported\<close> keeps the
  arguments of a call of \<^verbatim>\<open>onError\<close>, \<open>thrown\<close> those of a descendant's failure.
  \<open>silent_callback\<close> is a report callback that returns normally, \<open>rethrow_callback\<close>
  one that throws the error it is given. \<open>non_null_throw\<close> holds of an event that is not a
  throw of \<^verbatim>\<open>null\<close>, \<open>defined_throw\<close> of one that is not a throw of \<^verbatim>\<open>null\<close> or
  \<^verbatim>\<open>undefined\<close>.
\<close>

fun emitted :: "build \<Rightarrow> ErrorBoundaryProps \<Rightarrow> ErrorBoundaryState \<Rightarrow> event list \<Rightarrow> call list" where
  "emitted env p st [] = []"
| "emitted env p st (Throws e info # evs) =
     calls (capture env p st e info) @ emitted env p (step env p st (Throws e info)) evs"
| "emitted env p st (Click h # evs) = emitted env p (step env p st (Click h)) evs"

fun reported :: "call \<Rightarrow> (jsValue \<times> ErrorInfo) option" where
  "reported (OnErrorCall e info) = Some (e, info)"
| "reported (ConsoleError m e info) = None"

fun thrown :: "event \<Rightarrow> (jsValue \<times> ErrorInfo) option" where
  "thrown (Throws e info) = Some (e, info)"
| "thrown (Click h) = None"

definition silent_callback :: "jsValue \<Rightarrow> ErrorInfo \<Rightarrow> jsValue option" where
  "silent_callback e info = None"

definition rethrow_callback :: "jsValue \<Rightarrow> ErrorInfo \<Rightarrow> jsValue option" where
  "rethrow_callback e info = Some e"

definition nullish :: "jsValue \<Rightarrow> bool" where
  "nullish v = (v = VNull \<or> v = VUndefined)"

fun non_null_throw :: "event \<Rightarrow> bool" where
  "non_null_throw (Throws e info) = (e \<noteq> VNull)"
| "non_null_throw (Click h) = True"

fun defined_throw :: "event \<Rightarrow> bool" where
  "defined_throw (Throws e info) = (\<not> nullish e)"
| "defined_throw (Click h) = True"

section \<open>Properties\<close>

subsection \<open>State transitions\<close>

lemma handleReset_constructor: "handleReset st = constructor_state"
  by (simp add: handleReset_def setState_def constructor_state_def)

lemma derive_state:
  "derive st e = \<lparr> hasError = True, error = e, errorInfo = errorInfo st \<rparr>"
  by (simp add: derive_def setState_def getDerivedStateFromError_def)

lemma didCatch_state:
  "next_state (componentDidCatch env p st e info) =
     \<lparr> hasError = hasError st, error = e, errorInfo = Some info \<rparr>"
  by (simp add: componentDidCatch_def setState_def Let_def split: option.split)

lemma capture_state:
  "next_state (capture env p st e info) =
     \<lparr> hasError = True, error = e, errorInfo = Some info \<rparr>"
  by (simp add: capture_def didCatch_state derive_state)

lemma didCatch_calls:
  "calls (componentDidCatch env p st e info) =
     (if env_DEV env then [ConsoleError ''ErrorBoundary caught an error:'' e info] else []) @
     (case onError p of None \<Rightarrow> [] | Some cb \<Rightarrow> [OnErrorCall e info])"
  by (simp add: componentDidCatch_def Let_def split: option.split)

lemma didCatch_raised:
  "raised (componentDidCatch env p st e info) =
     (case onError p of None \<Rightarrow> None | Some cb \<Rightarrow> cb e info)"
  by (simp add: componentDidCatch_def Let_def split: option.split)

lemma env_PROD_iff: "env_PROD env = (\<not> env_DEV env)"
  by (cases env) (simp_all add: env_PROD_def env_DEV_def)

text \<open>
  C8. The reset handler is a constant function onto the state the constructor sets
  (\<^verbatim>\<open>hasError\<close> false, \<^verbatim>\<open>error\<close> and \<^verbatim>\<open>errorInfo\<close> null): running it twice is running it once,
  and on the initial state it changes nothing.
\<close>

theorem handleReset_constant_idempotent:
  "handleReset st = constructor_state
   \<and> hasError (handleReset st) = False
   \<and> error (handleReset st) = VNull
   \<and> errorInfo (handleReset st) = None
   \<and> handleReset (handleReset st) = handleReset st
   \<and> handleReset constructor_state = constructor_state"
  by (simp add: handleReset_constructor) (simp add: constructor_state_def)

theorem handleReset_constant_idempotent_witness:
  "handleReset \<lparr> hasError = True,
                 error = (VError \<lparr> err_name = ''Error'', err_message = ''X failed'' \<rparr>),
                 errorInfo = Some \<lparr> componentStack = Defined ''at Routes'' \<rparr> \<rparr>
     = \<lparr> hasError = False, error = VNull, errorInfo = None \<rparr>"
  using handleReset_constant_idempotent
    [of "\<lparr> hasError = True,
           error = (VError \<lparr> err_name = ''Error'', err_message = ''X failed'' \<rparr>),
           errorInfo = Some \<lparr> componentStack = Defined ''at Routes'' \<rparr> \<rparr>"]
  by (simp add: constructor_state_def)

text \<open>
  C4. While no failure is stored (\<^verbatim>\<open>hasError\<close> is false) \<^verbatim>\<open>render\<close> returns the
  \<^verbatim>\<open>children\<close> prop itself, whatever the build flag, the other props and the rest of the
  state.
\<close>

theorem render_pass_through:
  "\<not> hasError st \<Longrightarrow> render env p st = Inr (children p)"
  by (simp add: render_def)

theorem render_pass_through_witness:
  "\<not> hasError constructor_state
   \<and> render Development
        \<lparr> children = NElem ''Routes'' [] [], fallback = NStr ''Oops'', onError = None \<rparr>
        constructor_state
      = Inr (NElem ''Routes'' [] [])"
proof -
  have h: "\<not> hasError constructor_state"
    by (simp add: constructor_state_def)
  from render_pass_through [OF h] show ?thesis
    using h by simp
qed

subsection \<open>The lifecycle\<close>

lemma step_invariant:
  "non_null_throw ev \<Longrightarrow> hasError st = (error st \<noteq> VNull) \<Longrightarrow>
   hasError (step env p st ev) = (error (step env p st ev) \<noteq> VNull)"
proof (cases ev)
  case (Throws e info)
  assume "non_null_throw ev"
  with Throws show ?thesis by (simp add: capture_state)
next
  case (Click h)
  then show ?thesis
    by (cases h) (simp add: handleReset_constructor constructor_state_def)
qed

lemma run_invariant:
  "list_all non_null_throw evs \<Longrightarrow> hasError st = (error st \<noteq> VNull) \<Longrightarrow>
   hasError (run env p st evs) = (error (run env p st evs) \<noteq> VNull)"
  unfolding run_def
proof (induction evs arbitrary: st)
  case Nil
  then show ?case by simp
next
  case (Cons ev evs)
  from Cons.prems have "hasError (step env p st ev) = (error (step env p st ev) \<noteq> VNull)"
    by (simp add: step_invariant)
  with Cons.prems show ?case using Cons.IH by simp
qed

lemma step_defined:
  "defined_throw ev \<Longrightarrow> error st \<noteq> VUndefined \<Longrightarrow> error (step env p st ev) \<noteq> VUndefined"
proof (cases ev)
  case (Throws e info)
  assume "defined_throw ev"
  with Throws show ?thesis by (simp add: capture_state nullish_def)
next
  case (Click h)
  then show ?thesis
    by (cases h) (simp add: handleReset_constructor constructor_state_def)
qed

lemma run_defined:
  "list_all defined_throw evs \<Longrightarrow> error st \<noteq> VUndefined \<Longrightarrow>
   error (run env p st evs) \<noteq> VUndefined"
  unfolding run_def
  by (induction evs arbitrary: st) (simp_all add: step_defined)

lemma step_stays_failed:
  "hasError st \<Longrightarrow> is_throw ev \<Longrightarrow> hasError (step env p st ev)"
  by (cases ev) (simp_all add: capture_state)

lemma run_stays_failed:
  "hasError st \<Longrightarrow> list_all is_throw evs \<Longrightarrow> hasError (run env p st evs)"
  unfolding run_def
  by (induction evs arbitrary: st) (simp_all add: step_stays_failed)

lemma run_append: "run env p st (xs @ ys) = run env p (run env p st xs) ys"
  by (simp add: run_def)

lemma capture_calls:
  "calls (capture env p st e info) =
     (if env_DEV env then [ConsoleError ''ErrorBoundary caught an error:'' e info] else []) @
     (case onError p of None \<Rightarrow> [] | Some cb \<Rightarrow> [OnErrorCall e info])"
  by (simp add: capture_def didCatch_calls)

lemma map_filter_app:
  "List.map_filter f (xs @ ys) = List.map_filter f xs @ List.map_filter f ys"
  by (simp add: List.map_filter_def)

lemma emitted_reports:
  "onError p = Some cb \<Longrightarrow>
   List.map_filter reported (emitted env p st evs) = List.map_filter thrown evs"
proof (induction evs arbitrary: st)
  case Nil
  show ?case by (simp add: map_filter_simps)
next
  case (Cons ev evs)
  show ?case
  proof (cases ev)
    case (Throws e info)
    have "List.map_filter reported (calls (capture env p st e info)) = [(e, info)]"
      using Cons.prems by (simp add: capture_calls map_filter_simps)
    then show ?thesis
      using Throws Cons.IH [OF Cons.prems] by (simp add: map_filter_app map_filter_simps)
  next
    case (Click h)
    then show ?thesis
      using Cons.IH [OF Cons.prems] by (simp add: map_filter_simps)
  qed
qed

text \<open>
  C5. As long as no descendant throws \<^verbatim>\<open>null\<close>, \<^verbatim>\<open>hasError\<close> is true exactly when the
  \<^verbatim>\<open>error\<close> field is not \<^verbatim>\<open>null\<close>, in every state of the lifecycle: the state the
  constructor sets, the state after any list of captures and resets from it, and the
  state between the two hooks of a capture, when \<^verbatim>\<open>getDerivedStateFromError\<close> has run and
  \<^verbatim>\<open>componentDidCatch\<close> has not. When no descendant throws \<^verbatim>\<open>undefined\<close> either, the field
  is never \<^verbatim>\<open>undefined\<close>.
\<close>

theorem hasError_iff_error_stored:
  assumes "list_all non_null_throw evs" and "e \<noteq> VNull"
  shows "(hasError (run env p constructor_state evs)
           \<longleftrightarrow> error (run env p constructor_state evs) \<noteq> VNull)
         \<and> (hasError (derive (run env p constructor_state evs) e)
           \<longleftrightarrow> error (derive (run env p constructor_state evs) e) \<noteq> VNull)
         \<and> (list_all defined_throw evs
           \<longrightarrow> error (run env p constructor_state evs) \<noteq> VUndefined)"
proof (intro conjI impI)
  have "hasError constructor_state = (error constructor_state \<noteq> VNull)"
    by (simp add: constructor_state_def)
  with assms(1) show "hasError (run env p constructor_state evs)
      \<longleftrightarrow> error (run env p constructor_state evs) \<noteq> VNull"
    by (rule run_invariant)
next
  show "hasError (derive (run env p constructor_state evs) e)
      \<longleftrightarrow> error (derive (run env p constructor_state evs) e) \<noteq> VNull"
    using assms(2) by (simp add: derive_state)
next
  assume "list_all defined_throw evs"
  moreover have "error constructor_state \<noteq> VUndefined"
    by (simp add: constructor_state_def)
  ultimately show "error (run env p constructor_state evs) \<noteq> VUndefined"
    by (rule run_defined)
qed

theorem hasError_iff_error_stored_witness:
  "list_all non_null_throw
     [Throws (VError \<lparr> err_name = ''Error'', err_message = ''X failed'' \<rparr>)
             \<lparr> componentStack = Defined ''at Routes'' \<rparr>]
   \<and> hasError (run Development
      \<lparr> children = NStr ''app'', fallback = NUndefined, onError = None \<rparr> constructor_state
      [Throws (VError \<lparr> err_name = ''Error'', err_message = ''X failed'' \<rparr>)
              \<lparr> componentStack = Defined ''at Routes'' \<rparr>])
   \<and> error (run Development
      \<lparr> children = NStr ''app'', fallback = NUndefined, onError = None \<rparr> constructor_state
      [Throws (VError \<lparr> err_name = ''Error'', err_message = ''X failed'' \<rparr>)
              \<lparr> componentStack = Defined ''at Routes'' \<rparr>])
     = VError \<lparr> err_name = ''Error'', err_message = ''X failed'' \<rparr>"
proof -
  have throws: "list_all non_null_throw
     [Throws (VError \<lparr> err_name = ''Error'', err_message = ''X failed'' \<rparr>)
             \<lparr> componentStack = Defined ''at Routes'' \<rparr>]"
    by simp
  have thrown: "VError \<lparr> err_name = ''Error'', err_message = ''X failed'' \<rparr> \<noteq> VNull"
    by simp
  from hasError_iff_error_stored [OF throws thrown, of Development
      "\<lparr> children = NStr ''app'', fallback = NUndefined, onError = None \<rparr>"]
  show ?thesis
    by (simp add: run_def capture_state)
qed

text \<open>
  The condition is needed: a descendant that executes \<^verbatim>\<open>throw null\<close> leaves \<^verbatim>\<open>hasError\<close> true
  with \<^verbatim>\<open>null\<close> stored, after the first hook and after the second.
\<close>

theorem thrown_null_counterexample:
  "hasError (derive constructor_state VNull)
   \<and> error (derive constructor_state VNull) = VNull
   \<and> hasError (run Production
        \<lparr> children = NStr ''app'', fallback = NUndefined, onError = None \<rparr> constructor_state
        [Throws VNull \<lparr> componentStack = Defined ''at Routes'' \<rparr>])
   \<and> error (run Production
        \<lparr> children = NStr ''app'', fallback = NUndefined, onError = None \<rparr> constructor_state
        [Throws VNull \<lparr> componentStack = Defined ''at Routes'' \<rparr>]) = VNull"
  by (simp add: derive_state run_def capture_state)

text \<open>
  C3. After a capture, the retry action puts the state back to the one the constructor
  sets, no error stored; the next \<^verbatim>\<open>render\<close>, with whatever props and build flag, returns
  the \<^verbatim>\<open>children\<close> prop and nothing of the fallback.
\<close>

theorem retry_restores_children:
  "handleReset (next_state (capture env p st e info)) = constructor_state
   \<and> run env p st [Throws e info, Click HandleReset] = constructor_state
   \<and> hasError (run env p st [Throws e info, Click HandleReset]) = False
   \<and> error (run env p st [Throws e info, Click HandleReset]) = VNull
   \<and> render env' p' (run env p st [Throws e info, Click HandleReset]) = Inr (children p')"
  by (simp add: run_def handleReset_constructor render_def) (simp add: constructor_state_def)

theorem retry_restores_children_witness:
  "render Production \<lparr> children = NStr ''home'', fallback = NStr ''Oops'', onError = None \<rparr>
     (run Production \<lparr> children = NStr ''app'', fallback = NStr ''Oops'', onError = None \<rparr>
        constructor_state
        [Throws (VError \<lparr> err_name = ''Error'', err_message = ''X failed'' \<rparr>)
                \<lparr> componentStack = Defined ''at Routes'' \<rparr>,
         Click HandleReset])
   = Inr (NStr ''home'')"
proof -
  have "render Production
          \<lparr> children = NStr ''home'', fallback = NStr ''Oops'', onError = None \<rparr>
          (run Production
             \<lparr> children = NStr ''app'', fallback = NStr ''Oops'', onError = None \<rparr>
             constructor_state
             [Throws (VError \<lparr> err_name = ''Error'', err_message = ''X failed'' \<rparr>)
                     \<lparr> componentStack = Defined ''at Routes'' \<rparr>,
              Click HandleReset])
        = Inr (children \<lparr> children = NStr ''home'', fallback = NStr ''Oops'', onError = None \<rparr>)"
    using retry_restores_children by blast
  then show ?thesis by simp
qed

text \<open>
  C7. \<^verbatim>\<open>componentDidCatch\<close> has no \<^verbatim>\<open>throw\<close> of its own: what leaves it is what the report
  callback throws, so a capture raises nothing exactly when the callback is absent or
  returns normally. Nothing retries by itself: once a failure is captured \<^verbatim>\<open>hasError\<close>
  stays true through any further captures, and it is the click on the retry button that
  clears it.
\<close>

theorem failure_contained:
  assumes no_click: "list_all is_throw evs"
  shows "raised (capture env p st e info) =
           (case onError p of None \<Rightarrow> None | Some cb \<Rightarrow> cb e info)
         \<and> ((raised (capture env p st e info) = None)
              = (\<forall>cb. onError p = Some cb \<longrightarrow> cb e info = None))
         \<and> hasError (derive st e)
         \<and> hasError (next_state (capture env p st e info))
         \<and> hasError (run env p (next_state (capture env p st e info)) evs)
         \<and> \<not> hasError (run env p (next_state (capture env p st e info))
                          (evs @ [Click HandleReset]))"
proof (intro conjI)
  show "raised (capture env p st e info) =
          (case onError p of None \<Rightarrow> None | Some cb \<Rightarrow> cb e info)"
    by (simp add: capture_def didCatch_raised)
  then show "(raised (capture env p st e info) = None)
              = (\<forall>cb. onError p = Some cb \<longrightarrow> cb e info = None)"
    by (cases "onError p") simp_all
  show "hasError (derive st e)"
    by (simp add: derive_state)
  show failed: "hasError (next_state (capture env p st e info))"
    by (simp add: capture_state)
  from failed no_click
  show "hasError (run env p (next_state (capture env p st e info)) evs)"
    by (rule run_stays_failed)
  show "\<not> hasError (run env p (next_state (capture env p st e info))
                      (evs @ [Click HandleReset]))"
    by (simp add: run_append) (simp add: run_def handleReset_constructor constructor_state_def)
qed

theorem failure_contained_witness:
  "list_all is_throw
     [Throws (VError \<lparr> err_name = ''TypeError'', err_message = '''' \<rparr>)
             \<lparr> componentStack = Undefined \<rparr>]
   \<and> raised (capture Production
      \<lparr> children = NStr ''app'', fallback = NUndefined, onError = Some silent_callback \<rparr>
      constructor_state (VError \<lparr> err_name = ''Error'', err_message = ''X failed'' \<rparr>)
      \<lparr> componentStack = Defined ''at Routes'' \<rparr>) = None
   \<and> hasError (run Production
      \<lparr> children = NStr ''app'', fallback = NUndefined, onError = Some silent_callback \<rparr>
      (next_state (capture Production
         \<lparr> children = NStr ''app'', fallback = NUndefined, onError = Some silent_callback \<rparr>
         constructor_state (VError \<lparr> err_name = ''Error'', err_message = ''X failed'' \<rparr>)
         \<lparr> componentStack = Defined ''at Routes'' \<rparr>))
      [Throws (VError \<lparr> err_name = ''TypeError'', err_message = '''' \<rparr>)
              \<lparr> componentStack = Undefined \<rparr>])"
proof -
  have no_click:
    "list_all is_throw
       [Throws (VError \<lparr> err_name = ''TypeError'', err_message = '''' \<rparr>)
               \<lparr> componentStack = Undefined \<rparr>]"
    by simp
  from failure_contained [OF no_click, of Production
      "\<lparr> children = NStr ''app'', fallback = NUndefined, onError = Some silent_callback \<rparr>"
      constructor_state "VError \<lparr> err_name = ''Error'', err_message = ''X failed'' \<rparr>"
      "\<lparr> componentStack = Defined ''at Routes'' \<rparr>"]
  show ?thesis
    using no_click by (simp add: silent_callback_def)
qed

text \<open>
  Without the condition on the callback the failure is not contained: with a callback
  that throws the error it is given, the captured error leaves \<^verbatim>\<open>componentDidCatch\<close>.
\<close>

theorem rethrowing_callback_counterexample:
  "raised (capture Production
      \<lparr> children = NStr ''app'', fallback = NUndefined, onError = Some rethrow_callback \<rparr>
      constructor_state (VError \<lparr> err_name = ''Error'', err_message = ''X failed'' \<rparr>)
      \<lparr> componentStack = Defined ''at Routes'' \<rparr>)
   = Some (VError \<lparr> err_name = ''Error'', err_message = ''X failed'' \<rparr>)"
  by (simp add: capture_def didCatch_raised rethrow_callback_def)

text \<open>
  C2. With an \<^verbatim>\<open>onError\<close> prop, each capture calls it once, inside \<^verbatim>\<open>componentDidCatch\<close>,
  with the thrown error and its \<^verbatim>\<open>ErrorInfo\<close>; over a list of events the calls of
  \<^verbatim>\<open>onError\<close> are the failures thrown, one for one and in order. In a production build it
  is the only call that leaves the component during the capture; in a development build
  \<^verbatim>\<open>console.error\<close> is called first, with the same error and \<^verbatim>\<open>ErrorInfo\<close>.
\<close>

theorem onError_once_per_capture:
  assumes "onError p = Some cb"
  shows "List.map_filter reported (calls (capture env p st e info)) = [(e, info)]
         \<and> List.map_filter reported (emitted env p st evs) = List.map_filter thrown evs
         \<and> (env_PROD env \<longrightarrow> calls (capture env p st e info) = [OnErrorCall e info])
         \<and> (env_DEV env \<longrightarrow> calls (capture env p st e info) =
               [ConsoleError ''ErrorBoundary caught an error:'' e info, OnErrorCall e info])"
  using assms emitted_reports [OF assms]
  by (simp add: capture_calls map_filter_simps env_PROD_iff)

theorem onError_once_per_capture_witness:
  "List.map_filter reported
     (emitted Production
        \<lparr> children = NStr ''app'', fallback = NUndefined, onError = Some silent_callback \<rparr>
        constructor_state
        [Throws (VError \<lparr> err_name = ''Error'', err_message = ''X failed'' \<rparr>)
                \<lparr> componentStack = Defined ''at Routes'' \<rparr>,
         Click HandleReset,
         Throws (VError \<lparr> err_name = ''TypeError'', err_message = '''' \<rparr>) \<lparr> componentStack = Undefined \<rparr>])
   = [((VError \<lparr> err_name = ''Error'', err_message = ''X failed'' \<rparr>),
       \<lparr> componentStack = Defined ''at Routes'' \<rparr>),
      ((VError \<lparr> err_name = ''TypeError'', err_message = '''' \<rparr>), \<lparr> componentStack = Undefined \<rparr>)]
   \<and> calls (capture Production
        \<lparr> children = NStr ''app'', fallback = NUndefined, onError = Some silent_callback \<rparr>
        constructor_state (VError \<lparr> err_name = ''Error'', err_message = ''X failed'' \<rparr>)
        \<lparr> componentStack = Defined ''at Routes'' \<rparr>)
      = [OnErrorCall (VError \<lparr> err_name = ''Error'', err_message = ''X failed'' \<rparr>)
           \<lparr> componentStack = Defined ''at Routes'' \<rparr>]"
  using onError_once_per_capture
    [of "\<lparr> children = NStr ''app'', fallback = NUndefined, onError = Some silent_callback \<rparr>"
        silent_callback Production constructor_state
        "(VError \<lparr> err_name = ''Error'', err_message = ''X failed'' \<rparr>)"
        "\<lparr> componentStack = Defined ''at Routes'' \<rparr>"
        "[Throws (VError \<lparr> err_name = ''Error'', err_message = ''X failed'' \<rparr>)
                 \<lparr> componentStack = Defined ''at Routes'' \<rparr>,
          Click HandleReset,
          Throws (VError \<lparr> err_name = ''TypeError'', err_message = '''' \<rparr>) \<lparr> componentStack = Undefined \<rparr>]"]
  by (simp add: map_filter_simps env_PROD_def env_DEV_def capture_calls)

text \<open>
  The restriction to a production build is needed: in a development build
  \<^verbatim>\<open>console.error\<close> is called before \<^verbatim>\<open>onError\<close>, so the capture makes two calls that
  leave the component.
\<close>

theorem single_call_counterexample:
  "onError \<lparr> children = NStr ''app'', fallback = NUndefined, onError = Some silent_callback \<rparr>
     = Some silent_callback
   \<and> calls (capture Development
        \<lparr> children = NStr ''app'', fallback = NUndefined, onError = Some silent_callback \<rparr>
        constructor_state (VError \<lparr> err_name = ''Error'', err_message = ''X failed'' \<rparr>)
        \<lparr> componentStack = Defined ''at Routes'' \<rparr>)
      \<noteq> [OnErrorCall (VError \<lparr> err_name = ''Error'', err_message = ''X failed'' \<rparr>)
            \<lparr> componentStack = Defined ''at Routes'' \<rparr>]
   \<and> length (calls (capture Development
        \<lparr> children = NStr ''app'', fallback = NUndefined, onError = Some silent_callback \<rparr>
        constructor_state (VError \<lparr> err_name = ''Error'', err_message = ''X failed'' \<rparr>)
        \<lparr> componentStack = Defined ''at Routes'' \<rparr>)) = 2"
  by (simp add: capture_calls env_DEV_def)

subsection \<open>The rendered view\<close>

lemmas view_defs =
  defaultFallback_def forestDecoration_def errorIcon_def errorTitle_def errorMessage_def
  navigation_def helpfulLinks_def support_def button_svg_def svg_stroke_def


lemma truthy_value_falsy_node: "truthy_value v = (falsy_node v = None)"
  by (cases v) simp_all

lemma truthy_value_not_nullish: "truthy_value v \<Longrightarrow> \<not> nullish v"
  by (cases v) (simp_all add: nullish_def)

lemma falsy_node_leaf:
  "falsy_node v = Some n \<Longrightarrow> descendants n = [n] \<and> tag_of n = None \<and> attrs_of n = []"
  by (cases v) (auto split: if_splits)

lemma errorDetails_defined:
  "\<not> nullish (error st) \<Longrightarrow>
   errorDetails st =
     Inr (NElem ''details'' [(''className'', AStyle ''errorDetails'')]
           [NElem ''summary'' [(''className'', AStyle ''errorSummary'')]
             [NStr ''Error Details (Development Only)''],
            NElem ''div'' [(''className'', AStyle ''errorContent'')]
             [NElem ''pre'' [(''className'', AStyle ''errorStack'')]
               [NStr (js_String (error st)), componentStack_of (errorInfo st)]]])"
  by (simp add: errorDetails_def toString_call_def nullish_def)


lemma componentStack_of_cases:
  "componentStack_of i = NUndefined \<or> componentStack_of i = NNull
   \<or> (\<exists>s. componentStack_of i = NStr s)"
  by (simp add: componentStack_of_def split: option.split nullable.split)

lemma text_of_componentStack_of:
  "text_of (componentStack_of i) =
     (case i of
        None \<Rightarrow> []
      | Some info \<Rightarrow> (case componentStack info of Defined s \<Rightarrow> s | _ \<Rightarrow> []))"
  by (simp add: componentStack_of_def split: option.split nullable.split)


lemma detailsSlot_development:
  assumes "env_DEV env" and "truthy_value (error st)"
  shows "\<exists>d. detailsSlot env st = Inr d \<and> panels d = [d]
             \<and> text_of d = ''Error Details (Development Only)'' @ js_String (error st)
                            @ text_of (componentStack_of (errorInfo st))
             \<and> panel_text d = [js_String (error st) @ text_of (componentStack_of (errorInfo st))]"
proof -
  have slot: "detailsSlot env st = errorDetails st"
    using assms by (simp add: detailsSlot_def truthy_value_falsy_node)
  have defined: "\<not> nullish (error st)"
    using assms(2) by (rule truthy_value_not_nullish)
  from componentStack_of_cases [of "errorInfo st"] show ?thesis
  proof (elim disjE exE)
    assume "componentStack_of (errorInfo st) = NUndefined"
    with slot defined show ?thesis
      by (simp add: errorDetails_defined panels_def panel_text_def elements_def)
  next
    assume "componentStack_of (errorInfo st) = NNull"
    with slot defined show ?thesis
      by (simp add: errorDetails_defined panels_def panel_text_def elements_def)
  next
    fix s assume "componentStack_of (errorInfo st) = NStr s"
    with slot defined show ?thesis
      by (simp add: errorDetails_defined panels_def panel_text_def elements_def)
  qed
qed

lemma detailsSlot_no_panel:
  assumes "\<not> env_DEV env \<or> \<not> truthy_value (error st)"
  shows "\<exists>s. detailsSlot env st = Inr s \<and> panels s = [] \<and> panel_text s = []"
proof (cases "env_DEV env")
  case False
  then show ?thesis
    by (simp add: detailsSlot_def panels_def panel_text_def elements_def)
next
  case True
  with assms obtain n where n: "falsy_node (error st) = Some n"
    by (auto simp add: truthy_value_falsy_node)
  from falsy_node_leaf [OF n] True n show ?thesis
    by (simp add: detailsSlot_def panels_def panel_text_def elements_def)
qed






lemma defaultFallback_panels: "panels (defaultFallback s) = panels s"
  by (simp add: panels_def elements_def view_defs)

lemma defaultFallback_panel_text: "panel_text (defaultFallback s) = panel_text s"
  by (simp add: panel_text_def elements_def view_defs)

lemma render_failed:
  "hasError st \<Longrightarrow>
   render env p st =
     (if truthy (fallback p) then Inr (fallback p)
      else map_sum id defaultFallback (detailsSlot env st))"
  by (simp add: render_def split: sum.split)


lemma render_development_panel:
  assumes "env_DEV env" and "hasError st" and "truthy_value (error st)"
    and "\<not> truthy (fallback p)"
  shows "\<exists>v. render env p st = Inr v \<and> length (panels v) = 1
             \<and> map text_of (panels v) =
                 [''Error Details (Development Only)'' @ js_String (error st)
                  @ text_of (componentStack_of (errorInfo st))]
             \<and> panel_text v = [js_String (error st) @ text_of (componentStack_of (errorInfo st))]"
proof -
  obtain d where d: "detailsSlot env st = Inr d" "panels d = [d]"
      "text_of d = ''Error Details (Development Only)'' @ js_String (error st)
                   @ text_of (componentStack_of (errorInfo st))"
      "panel_text d = [js_String (error st) @ text_of (componentStack_of (errorInfo st))]"
    using detailsSlot_development [OF assms(1,3)] by blast
  have "render env p st = Inr (defaultFallback d)"
    using assms(2,4) d(1) by (simp add: render_failed)
  then show ?thesis
    using d(2-) by (simp add: defaultFallback_panels defaultFallback_panel_text)
qed

lemma render_no_panel:
  assumes "\<not> env_DEV env \<or> \<not> truthy_value (error st)" and "hasError st"
    and "\<not> truthy (fallback p)"
  shows "\<exists>v. render env p st = Inr v \<and> panels v = [] \<and> panel_text v = []"
proof -
  obtain s where s: "detailsSlot env st = Inr s" "panels s = []" "panel_text s = []"
    using detailsSlot_no_panel [OF assms(1)] by blast
  have "render env p st = Inr (defaultFallback s)"
    using assms(2,3) s(1) by (simp add: render_failed)
  then show ?thesis
    using s(2-) by (simp add: defaultFallback_panels defaultFallback_panel_text)
qed




text \<open>
  C10. With a truthy \<^verbatim>\<open>fallback\<close> prop and a captured error, \<^verbatim>\<open>render\<close> returns
  exactly that prop, in a development build too, whatever error is stored: nothing of
  the built-in view is rendered.
\<close>

theorem custom_fallback_only:
  assumes "truthy (fallback p)" and "hasError st" and "hasError st'"
  shows "render env p st = Inr (fallback p)
         \<and> render Development p st = Inr (fallback p)
         \<and> render env' p st' = render env p st"
  using assms by (simp add: render_failed)

theorem custom_fallback_only_witness:
  "truthy (fallback \<lparr> children = NStr ''app'', fallback = NStr ''Oops'', onError = None \<rparr>)
   \<and> hasError (derive constructor_state (VError \<lparr> err_name = ''Error'', err_message = ''X failed'' \<rparr>))
   \<and> render Development \<lparr> children = NStr ''app'', fallback = NStr ''Oops'', onError = None \<rparr>
        (derive constructor_state (VError \<lparr> err_name = ''Error'', err_message = ''X failed'' \<rparr>))
      = Inr (NStr ''Oops'')"
proof -
  have t: "truthy (fallback \<lparr> children = NStr ''app'', fallback = NStr ''Oops'', onError = None \<rparr>)"
    by simp
  have h: "hasError (derive constructor_state (VError \<lparr> err_name = ''Error'', err_message = ''X failed'' \<rparr>))"
    by (simp add: derive_state)
  from custom_fallback_only [OF t h h, of Development] t h
  show ?thesis by simp
qed

text \<open>
  Here too truthy cannot be weakened to supplied: with \<^verbatim>\<open>fallback={false}\<close> a development
  build renders the built-in view and its panel.
\<close>

theorem custom_fallback_counterexample:
  "fallback \<lparr> children = NStr ''app'', fallback = NBool False, onError = None \<rparr> \<noteq> NUndefined
   \<and> render Development \<lparr> children = NStr ''app'', fallback = NBool False, onError = None \<rparr>
        (next_state (capture Development
           \<lparr> children = NStr ''app'', fallback = NBool False, onError = None \<rparr>
           constructor_state (VError \<lparr> err_name = ''Error'', err_message = ''X failed'' \<rparr>)
           \<lparr> componentStack = Defined ''at Routes'' \<rparr>))
      \<noteq> Inr (NBool False)
   \<and> map_sum id panel_text
        (render Development \<lparr> children = NStr ''app'', fallback = NBool False, onError = None \<rparr>
          (next_state (capture Development
             \<lparr> children = NStr ''app'', fallback = NBool False, onError = None \<rparr>
             constructor_state (VError \<lparr> err_name = ''Error'', err_message = ''X failed'' \<rparr>)
             \<lparr> componentStack = Defined ''at Routes'' \<rparr>)))
      = Inr [''Error: X failedat Routes'']"
  by (simp add: render_failed capture_state detailsSlot_def env_DEV_def errorDetails_defined
      nullish_def defaultFallback_panel_text)
     (simp add: panel_text_def elements_def componentStack_of_def toString_def
      defaultFallback_def)

text \<open>
  C6. After a capture of a truthy thrown value (an \<^verbatim>\<open>Error\<close> object is one), when no truthy
  \<^verbatim>\<open>fallback\<close> prop is given, a development build renders one \<^verbatim>\<open><details>\<close> panel whose
  text is the summary line, the string form of the thrown value and the component
  trace (the trace is there once \<^verbatim>\<open>componentDidCatch\<close> has stored it). In a production
  build the output is the caller's own fallback or a built-in view without panel.
\<close>

theorem diagnostic_panel_by_build:
  "(env_DEV env \<and> truthy_value e \<and> \<not> truthy (fallback p) \<longrightarrow>
      (\<exists>v. render env p (next_state (capture env p st e info)) = Inr v
           \<and> length (panels v) = 1
           \<and> map text_of (panels v) =
               [''Error Details (Development Only)'' @ js_String e
                @ (case componentStack info of Defined s \<Rightarrow> s | _ \<Rightarrow> [])]
           \<and> panel_text v =
               [js_String e @ (case componentStack info of Defined s \<Rightarrow> s | _ \<Rightarrow> [])])
      \<and> (\<exists>v. render env p (derive st e) = Inr v
           \<and> length (panels v) = 1
           \<and> panel_text v = [js_String e @ text_of (componentStack_of (errorInfo st))]))
   \<and> (env_PROD env \<longrightarrow>
      (\<exists>v. render env p (next_state (capture env p st e info)) = Inr v
           \<and> (if truthy (fallback p) then v = fallback p else panels v = []))
      \<and> (\<exists>v. render env p (derive st e) = Inr v
           \<and> (if truthy (fallback p) then v = fallback p else panels v = [])))"
proof (intro conjI impI)
  assume a: "env_DEV env \<and> truthy_value e \<and> \<not> truthy (fallback p)"
  have c: "hasError (next_state (capture env p st e info))"
    "error (next_state (capture env p st e info)) = e"
    "errorInfo (next_state (capture env p st e info)) = Some info"
    by (simp_all add: capture_state)
  from a have tc: "truthy_value (error (next_state (capture env p st e info)))"
    by (simp add: c(2))
  from render_development_panel [OF _ c(1) tc] a
  show "\<exists>v. render env p (next_state (capture env p st e info)) = Inr v
           \<and> length (panels v) = 1
           \<and> map text_of (panels v) =
               [''Error Details (Development Only)'' @ js_String e
                @ (case componentStack info of Defined s \<Rightarrow> s | _ \<Rightarrow> [])]
           \<and> panel_text v =
               [js_String e @ (case componentStack info of Defined s \<Rightarrow> s | _ \<Rightarrow> [])]"
    by (simp add: c(2,3) text_of_componentStack_of)
  have d: "hasError (derive st e)" "error (derive st e) = e"
    "errorInfo (derive st e) = errorInfo st"
    by (simp_all add: derive_state)
  from a have td: "truthy_value (error (derive st e))"
    by (simp add: d(2))
  from render_development_panel [OF _ d(1) td] a
  show "\<exists>v. render env p (derive st e) = Inr v
           \<and> length (panels v) = 1
           \<and> panel_text v = [js_String e @ text_of (componentStack_of (errorInfo st))]"
    by (simp add: d(2,3)) blast
next
  assume a: "env_PROD env"
  then have nd:
    "\<not> env_DEV env \<or> \<not> truthy_value (error (next_state (capture env p st e info)))"
    "\<not> env_DEV env \<or> \<not> truthy_value (error (derive st e))"
    by (simp_all add: env_PROD_iff)
  have c: "hasError (next_state (capture env p st e info))" by (simp add: capture_state)
  have d: "hasError (derive st e)" by (simp add: derive_state)
  show "\<exists>v. render env p (next_state (capture env p st e info)) = Inr v
           \<and> (if truthy (fallback p) then v = fallback p else panels v = [])"
    using render_no_panel [OF nd(1) c, of p]
    by (cases "truthy (fallback p)") (auto simp add: render_failed c)
  show "\<exists>v. render env p (derive st e) = Inr v
           \<and> (if truthy (fallback p) then v = fallback p else panels v = [])"
    using render_no_panel [OF nd(2) d, of p]
    by (cases "truthy (fallback p)") (auto simp add: render_failed d)
qed

theorem diagnostic_panel_by_build_witness:
  "env_DEV Development
   \<and> truthy_value (VError \<lparr> err_name = ''Error'', err_message = ''X failed'' \<rparr>)
   \<and> \<not> truthy (fallback \<lparr> children = NStr ''app'', fallback = NUndefined, onError = None \<rparr>)
   \<and> (\<exists>v. render Development \<lparr> children = NStr ''app'', fallback = NUndefined, onError = None \<rparr>
              (next_state (capture Development
                 \<lparr> children = NStr ''app'', fallback = NUndefined, onError = None \<rparr>
                 constructor_state (VError \<lparr> err_name = ''Error'', err_message = ''X failed'' \<rparr>)
                 \<lparr> componentStack = Defined ''at Routes'' \<rparr>)) = Inr v
            \<and> panel_text v = [''Error: X failedat Routes''])
   \<and> env_PROD Production
   \<and> (\<exists>v. render Production \<lparr> children = NStr ''app'', fallback = NUndefined, onError = None \<rparr>
              (next_state (capture Production
                 \<lparr> children = NStr ''app'', fallback = NUndefined, onError = None \<rparr>
                 constructor_state (VError \<lparr> err_name = ''Error'', err_message = ''X failed'' \<rparr>)
                 \<lparr> componentStack = Defined ''at Routes'' \<rparr>)) = Inr v
            \<and> panels v = [])"
  using
    diagnostic_panel_by_build
      [of Development "VError \<lparr> err_name = ''Error'', err_message = ''X failed'' \<rparr>"
          "\<lparr> children = NStr ''app'', fallback = NUndefined, onError = None \<rparr>"
          constructor_state "\<lparr> componentStack = Defined ''at Routes'' \<rparr>"]
    diagnostic_panel_by_build
      [of Production "VError \<lparr> err_name = ''Error'', err_message = ''X failed'' \<rparr>"
          "\<lparr> children = NStr ''app'', fallback = NUndefined, onError = None \<rparr>"
          constructor_state "\<lparr> componentStack = Defined ''at Routes'' \<rparr>"]
  by (simp add: env_DEV_def env_PROD_def toString_def) blast

text \<open>
  Both conditions are needed. With a truthy \<^verbatim>\<open>fallback\<close> a development build renders that
  prop, which holds no panel; and after \<^verbatim>\<open>throw null\<close> the panel stays behind the test of
  \<^verbatim>\<open>this.state.error\<close>, so the built-in view of a development build has none.
\<close>

theorem panel_in_development_counterexample:
  "render Development \<lparr> children = NStr ''app'', fallback = NStr ''Oops'', onError = None \<rparr>
     (next_state (capture Development
        \<lparr> children = NStr ''app'', fallback = NStr ''Oops'', onError = None \<rparr>
        constructor_state (VError \<lparr> err_name = ''Error'', err_message = ''X failed'' \<rparr>)
        \<lparr> componentStack = Defined ''at Routes'' \<rparr>))
     = Inr (NStr ''Oops'')
   \<and> panels (NStr ''Oops'') = []
   \<and> map_sum id panels
        (render Development \<lparr> children = NStr ''app'', fallback = NUndefined, onError = None \<rparr>
          (next_state (capture Development
             \<lparr> children = NStr ''app'', fallback = NUndefined, onError = None \<rparr>
             constructor_state VNull \<lparr> componentStack = Defined ''at Routes'' \<rparr>)))
      = Inr []"
  by (simp add: render_failed capture_state detailsSlot_def env_DEV_def defaultFallback_panels)
     (simp add: panels_def elements_def)



end
